theory Spec2Isabelle
  imports Main "HOL-Library.AList"
begin

section \<open>global.js: layout loading, navigation and the authentication guard\<close>

text \<open>
  A shallow embedding of \<^verbatim>\<open>src/js/global.js\<close>. The script runs in a browser page. What
  it reads but never changes is the environment (\<open>env\<close>): the path of the current URL,
  the outcome of every network fetch, and the browser's parsers for JSON and HTML.
  What it changes is the page state (\<open>state\<close>): the document tree, the persisted store
  (localStorage), the URL assigned to \<^verbatim>\<open>window.location.href\<close>, the global
  \<^verbatim>\<open>window.currentUser\<close>, the console and the list of fetch calls issued.
  A function of the script that can throw returns a completion beside the new state; the
  changes made before a throw stay in the state, as they do in the browser.
  An \<^verbatim>\<open>await\<close> is modelled as sequencing: no other task of the page runs in between.
\<close>

subsection \<open>Strings\<close>

text \<open>\<^verbatim>\<open>s.includes(t)\<close>: \<open>t\<close> occurs in \<open>s\<close> as a contiguous substring.\<close>

fun includes_str :: "string \<Rightarrow> string \<Rightarrow> bool" where
  "includes_str [] t = (t = [])"
| "includes_str (c # s) t = (take (length t) (c # s) = t \<or> includes_str s t)"

text \<open>\<^verbatim>\<open>s.split(c)\<close> for a one-character separator: never empty, \<^verbatim>\<open>"".split("/")\<close> is \<^verbatim>\<open>[""]\<close>.\<close>

fun split_str :: "char \<Rightarrow> string \<Rightarrow> string list" where
  "split_str c [] = [[]]"
| "split_str c (x # xs) =
     (if x = c then [] # split_str c xs
      else (case split_str c xs of w # ws \<Rightarrow> (x # w) # ws | [] \<Rightarrow> [[x]]))"

text \<open>\<^verbatim>\<open>xs.join(sep)\<close> on strings.\<close>

fun join_str :: "string \<Rightarrow> string list \<Rightarrow> string" where
  "join_str sep [] = []"
| "join_str sep [x] = x"
| "join_str sep (x # y # r) = x @ sep @ join_str sep (y # r)"

text \<open>
  A value read from the store is a string or \<^verbatim>\<open>null\<close> (\<open>None\<close>). In a condition
  (\<^verbatim>\<open>if (v)\<close>, \<^verbatim>\<open>!v\<close>) \<^verbatim>\<open>null\<close> and the empty string are falsy, every other string
  is truthy. In a template literal \<^verbatim>\<open>null\<close> prints as \<^verbatim>\<open>null\<close>.
\<close>

definition truthy :: "string option \<Rightarrow> bool" where
  "truthy v = (case v of None \<Rightarrow> False | Some t \<Rightarrow> t \<noteq> [])"

definition text_of :: "string option \<Rightarrow> string" where
  "text_of v = (case v of None \<Rightarrow> ''null'' | Some t \<Rightarrow> t)"

subsection \<open>JSON values\<close>

text \<open>
  The values \<^verbatim>\<open>JSON.parse\<close> returns. A number is carried as the text the browser
  prints for it; an object as its own properties in order.
\<close>

datatype json =
    JNull
  | JBool bool
  | JNumber string
  | JString string
  | JArray "json list"
  | JObject "(string \<times> json) list"

text \<open>
  The conversion of a parsed value to a string, as a template literal performs it;
  \<open>None\<close> is a thrown \<^verbatim>\<open>TypeError\<close>. An array joins its elements with commas,
  \<^verbatim>\<open>null\<close> elements printing as nothing. An object prints through
  \<^verbatim>\<open>Object.prototype.toString\<close>, unless it has an own property \<^verbatim>\<open>toString\<close>: a parsed
  value is never callable, and the conversion then finds no method that yields a
  primitive.
\<close>

fun toStringJS :: "json \<Rightarrow> string option" where
  "toStringJS JNull = Some ''null''"
| "toStringJS (JBool b) = Some (if b then ''true'' else ''false'')"
| "toStringJS (JNumber t) = Some t"
| "toStringJS (JString t) = Some t"
| "toStringJS (JArray xs) =
     map_option (join_str '','')
       (those (map (\<lambda>x. if x = JNull then Some [] else toStringJS x) xs))"
| "toStringJS (JObject kvs) =
     (if map_of kvs ''toString'' = None then Some ''[object Object]'' else None)"

text \<open>
  \<^verbatim>\<open>${v.k}\<close> for \<open>k\<close> one of \<^verbatim>\<open>email\<close>, \<^verbatim>\<open>role\<close>: reading a property of \<^verbatim>\<open>null\<close>
  throws; an object yields its own property; no prototype of a parsed value defines
  these two names, so everything else yields \<^verbatim>\<open>undefined\<close>.
\<close>

definition member_text :: "json \<Rightarrow> string \<Rightarrow> string option" where
  "member_text v k =
     (case v of
        JNull \<Rightarrow> None
      | JObject kvs \<Rightarrow> (case map_of kvs k of None \<Rightarrow> Some ''undefined'' | Some x \<Rightarrow> toStringJS x)
      | _ \<Rightarrow> Some ''undefined'')"

subsection \<open>The document\<close>

text \<open>
  A node is a text node or an element with its namespace and tag, its attributes in
  order and its children. An element is addressed by its path from the root: the list
  of child indices. A handle the script keeps in a variable is such a path.
\<close>

datatype namespace = HTML | SVG | MathML

datatype node =
    Text string
  | Element "namespace \<times> string" "(string \<times> string) list" "node list"

fun children :: "node \<Rightarrow> node list" where
  "children (Text s) = []"
| "children (Element t a cs) = cs"

fun attr :: "string \<Rightarrow> node \<Rightarrow> string option" where
  "attr k (Text s) = None"
| "attr k (Element t a cs) = map_of a k"

fun is_svg :: "node \<Rightarrow> bool" where
  "is_svg (Text s) = False"
| "is_svg (Element t a cs) = (fst t = SVG)"

text \<open>
  The class list of an element: the tokens of its \<^verbatim>\<open>class\<close> attribute, split at ASCII
  whitespace. A class selector \<^verbatim>\<open>.c\<close> matches an element that has the token \<open>c\<close>
  (case-sensitive: the document is not in quirks mode).
\<close>

definition is_space :: "char \<Rightarrow> bool" where
  "is_space c = (c \<in> set [CHR 0x20, CHR 0x09, CHR 0x0A, CHR 0x0C, CHR 0x0D])"

fun split_ws :: "string \<Rightarrow> string list" where
  "split_ws [] = [[]]"
| "split_ws (x # xs) =
     (if is_space x then [] # split_ws xs
      else (case split_ws xs of w # ws \<Rightarrow> (x # w) # ws | [] \<Rightarrow> [[x]]))"

definition tokens :: "string \<Rightarrow> string list" where
  "tokens v = filter (\<lambda>w. w \<noteq> []) (split_ws v)"

definition class_attr :: "node \<Rightarrow> string" where
  "class_attr n = (case attr ''class'' n of None \<Rightarrow> [] | Some v \<Rightarrow> v)"

definition has_class :: "string \<Rightarrow> node \<Rightarrow> bool" where
  "has_class c n = (c \<in> set (tokens (class_attr n)))"

fun set_attr :: "string \<Rightarrow> string \<Rightarrow> node \<Rightarrow> node" where
  "set_attr k v (Text s) = Text s"
| "set_attr k v (Element t a cs) = Element t (AList.update k v a) cs"

fun set_children :: "node list \<Rightarrow> node \<Rightarrow> node" where
  "set_children cs' (Text s) = Text s"
| "set_children cs' (Element t a cs) = Element t a cs'"

text \<open>
  The property \<^verbatim>\<open>className\<close>. Read, it is the value of the \<^verbatim>\<open>class\<close> attribute as a
  string, but on an SVG element an \<^verbatim>\<open>SVGAnimatedString\<close> object that holds this value.
  Assigned, it sets the attribute, but on an SVG element the property is read-only and
  the assignment of the script (which does not run in strict mode) does nothing.
\<close>

datatype class_name = ClassString string | AnimatedString string

definition className :: "node \<Rightarrow> class_name" where
  "className n = (if is_svg n then AnimatedString (class_attr n) else ClassString (class_attr n))"

definition set_className :: "string \<Rightarrow> node \<Rightarrow> node" where
  "set_className v n = (if is_svg n then n else set_attr ''class'' v n)"

text \<open>
  \<^verbatim>\<open>classList.add(c)\<close>: the token is appended to the ordered set of tokens unless it is
  there, and the attribute is set to the set's serialisation.
\<close>

definition classList_add :: "string \<Rightarrow> node \<Rightarrow> node" where
  "classList_add c n =
     (let ts = rev (remdups (rev (tokens (class_attr n))));
          ts' = (if c \<in> set ts then ts else ts @ [c])
      in set_attr ''class'' (join_str '' '' ts') n)"

text \<open>The node at a path, and the change of the node at a path.\<close>

fun get_at :: "nat list \<Rightarrow> node \<Rightarrow> node option" where
  "get_at [] n = Some n"
| "get_at (i # p) n = (if i < length (children n) then get_at p (children n ! i) else None)"

fun update_at :: "nat list \<Rightarrow> (node \<Rightarrow> node) \<Rightarrow> node \<Rightarrow> node" where
  "update_at [] f n = f n"
| "update_at (i # p) f (Text s) = Text s"
| "update_at (i # p) f (Element t a cs) =
     (if i < length cs then Element t a (cs[i := update_at p f (cs ! i)]) else Element t a cs)"

fun proper_prefix :: "nat list \<Rightarrow> nat list \<Rightarrow> bool" where
  "proper_prefix [] q = (q \<noteq> [])"
| "proper_prefix (i # p) [] = False"
| "proper_prefix (i # p) (j # q) = (i = j \<and> proper_prefix p q)"

text \<open>
  The first element in tree order (an element before its descendants, children left to
  right) that satisfies a predicate, as a path. \<^verbatim>\<open>document.querySelector\<close> and
  \<^verbatim>\<open>document.getElementById\<close> search the whole tree, \<^verbatim>\<open>element.querySelector\<close> the
  descendants of the element only.
\<close>

fun first_some :: "nat \<Rightarrow> nat list option list \<Rightarrow> nat list option" where
  "first_some i [] = None"
| "first_some i (None # r) = first_some (Suc i) r"
| "first_some i (Some p # r) = Some (i # p)"

fun find_first :: "(node \<Rightarrow> bool) \<Rightarrow> node \<Rightarrow> nat list option" where
  "find_first P (Text s) = None"
| "find_first P (Element t a cs) =
     (if P (Element t a cs) then Some [] else first_some 0 (map (find_first P) cs))"

definition find_descendant :: "(node \<Rightarrow> bool) \<Rightarrow> node \<Rightarrow> nat list option" where
  "find_descendant P n = first_some 0 (map (find_first P) (children n))"

text \<open>No element has the empty string as its ID.\<close>

definition getElementById :: "string \<Rightarrow> node \<Rightarrow> nat list option" where
  "getElementById i d = (if i = [] then None else find_first (\<lambda>n. attr ''id'' n = Some i) d)"

subsection \<open>Errors, completions, console, network\<close>

datatype js_error =
    ComponentNotFound string  \<comment> \<open>\<^verbatim>\<open>new Error(`Componente nao encontrado: ${componentPath}`)\<close>\<close>
  | NotAuthenticated          \<comment> \<open>\<^verbatim>\<open>new Error("Nao autenticado, redirecionando para login.")\<close>\<close>
  | CorruptedUserData         \<comment> \<open>\<^verbatim>\<open>new Error("Dados de usuario corrompidos, redirecionando para login.")\<close>\<close>
  | SyntaxError               \<comment> \<open>thrown by \<^verbatim>\<open>JSON.parse\<close>\<close>
  | TypeError                 \<comment> \<open>a property read on \<^verbatim>\<open>null\<close>, a failed string conversion\<close>
  | HostError string          \<comment> \<open>the reason the browser rejects a fetch or a body read with\<close>

datatype completion = Returned | Thrown js_error

text \<open>One constructor for each console call of the script, with the values it prints.\<close>

datatype console_entry =
    GuardStart                     \<comment> \<open>log: \<^verbatim>\<open>[AUTH_GUARD] Iniciando verificacao de autenticacao...\<close>\<close>
  | GuardNoToken                   \<comment> \<open>warn: \<^verbatim>\<open>[AUTH_GUARD] Token de autenticacao nao encontrado no localStorage.\<close>\<close>
  | GuardRedirecting               \<comment> \<open>log: \<^verbatim>\<open>[AUTH_GUARD] Redirecionando para a pagina de login: /app/login.html\<close>\<close>
  | GuardTokenFound                \<comment> \<open>log: \<^verbatim>\<open>[AUTH_GUARD] Token de autenticacao encontrado. Acesso permitido.\<close>\<close>
  | GuardUserLogged string string  \<comment> \<open>log: \<^verbatim>\<open>[AUTH_GUARD] Usuario logado: ${email} (Role: ${role})\<close>\<close>
  | GuardParseError js_error       \<comment> \<open>error: \<^verbatim>\<open>[AUTH_GUARD] Erro ao parsear userData do localStorage:\<close>, e\<close>
  | ComponentLoadError js_error    \<comment> \<open>error: \<^verbatim>\<open>Erro ao carregar componente:\<close>, error\<close>
  | LogoutCalled                   \<comment> \<open>log: \<^verbatim>\<open>[DEBUG-FRONTEND] A funcao logout() foi chamada.\<close>\<close>
  | LogoutSending                  \<comment> \<open>log: \<^verbatim>\<open>[DEBUG-FRONTEND] Token encontrado. Enviando requisicao para /api/auth/logout...\<close>\<close>
  | LogoutServerFailed             \<comment> \<open>warn: \<^verbatim>\<open>A invalidacao do token no servidor falhou, mas o logout no cliente prosseguira.\<close>\<close>
  | LogoutServerOk                 \<comment> \<open>log: \<^verbatim>\<open>[AUTH] Token invalidado no servidor com sucesso.\<close>\<close>
  | LogoutContactError js_error    \<comment> \<open>error: \<^verbatim>\<open>Erro ao contatar o servidor para logout:\<close>, error\<close>
  | AutoFixWrapping "class_name list"  \<comment> \<open>log: \<^verbatim>\<open>Auto-corrigindo layout: ...\<close>, the class names of the containers\<close>

datatype http_verb = GET | POST

record request =
  url :: string
  verb :: http_verb
  headers :: "(string \<times> string) list"

text \<open>
  A response has its \<^verbatim>\<open>ok\<close> flag and the outcome of \<^verbatim>\<open>response.text()\<close>, which can
  reject as well. A fetch rejects or resolves with a response.
\<close>

datatype response = Response bool "js_error + string"

fun ok :: "response \<Rightarrow> bool" where
  "ok (Response b t) = b"

fun body_text :: "response \<Rightarrow> js_error + string" where
  "body_text (Response b t) = t"

datatype fetch_outcome = Rejected js_error | Resolved response

subsection \<open>Environment and state\<close>

text \<open>
  \<open>fetch env earlier r\<close> is the outcome of the fetch call \<open>r\<close> issued after the calls
  \<open>earlier\<close>. \<open>parseHTML env e m\<close> is the list of nodes the browser parses from the
  markup \<open>m\<close> assigned to \<^verbatim>\<open>innerHTML\<close> of the element \<open>e\<close>.
\<close>

record env =
  pathname :: string
  fetch :: "request list \<Rightarrow> request \<Rightarrow> fetch_outcome"
  JSON_parse :: "string \<Rightarrow> json option"
  parseHTML :: "node \<Rightarrow> string \<Rightarrow> node list"

record state =
  document :: node
  localStorage :: "string \<rightharpoonup> string"
  location_href :: "string option"
  currentUser :: "json option"
  console :: "console_entry list"
  fetch_calls :: "request list"

definition console_put :: "console_entry \<Rightarrow> state \<Rightarrow> state" where
  "console_put e s = s\<lparr>console := console s @ [e]\<rparr>"

definition getItem :: "state \<Rightarrow> string \<Rightarrow> string option" where
  "getItem s k = localStorage s k"

definition removeItem :: "string \<Rightarrow> state \<Rightarrow> state" where
  "removeItem k s = s\<lparr>localStorage := (localStorage s)(k := None)\<rparr>"

definition storage_clear :: "state \<Rightarrow> state" where
  "storage_clear s = s\<lparr>localStorage := Map.empty\<rparr>"

definition assign_href :: "string \<Rightarrow> state \<Rightarrow> state" where
  "assign_href u s = s\<lparr>location_href := Some u\<rparr>"

text \<open>Calling \<^verbatim>\<open>fetch\<close>: the call is recorded, the environment gives its outcome.\<close>

definition do_fetch :: "env \<Rightarrow> request \<Rightarrow> state \<Rightarrow> fetch_outcome \<times> state" where
  "do_fetch env r s = (fetch env (fetch_calls s) r, s\<lparr>fetch_calls := fetch_calls s @ [r]\<rparr>)"

text \<open>Statement sequencing and \<^verbatim>\<open>try { ... } catch (e) { ... }\<close> on completions.\<close>

definition and_then ::
  "(state \<Rightarrow> completion \<times> state) \<Rightarrow> (state \<Rightarrow> completion \<times> state) \<Rightarrow> state \<Rightarrow> completion \<times> state" where
  "and_then f g s = (case f s of (Thrown e, s') \<Rightarrow> (Thrown e, s') | (Returned, s') \<Rightarrow> g s')"

definition try_catch ::
  "(state \<Rightarrow> completion \<times> state) \<Rightarrow> (js_error \<Rightarrow> state \<Rightarrow> completion \<times> state) \<Rightarrow> state \<Rightarrow> completion \<times> state" where
  "try_catch block handler s =
     (case block s of (Thrown e, s') \<Rightarrow> handler e s' | (Returned, s') \<Rightarrow> (Returned, s'))"

subsection \<open>Path resolver and page navigator\<close>

text \<open>
  \<^verbatim>\<open>getBasePath\<close>: \<^verbatim>\<open>'/' + path.split('/')[1]\<close>. Where the path has no second segment
  the index yields \<^verbatim>\<open>undefined\<close>, which the concatenation prints.
\<close>

definition getBasePath :: "env \<Rightarrow> string" where
  "getBasePath env =
     (let path = pathname env;
          repoName = (case split_str CHR ''/'' path of _ # seg # _ \<Rightarrow> seg | _ \<Rightarrow> ''undefined'')
      in ''/'' @ repoName)"

definition isAdminContext :: "env \<Rightarrow> bool" where
  "isAdminContext env = includes_str (pathname env) ''/admin/''"

definition pageMap :: "string \<Rightarrow> (string \<times> string) list" where
  "pageMap basePath =
     [(''dashboard_admin'', basePath @ ''/admin/dashboard_admin.html''),
      (''nova-camara'', basePath @ ''/admin/nova_camara.html''),
      (''novo-partido'', basePath @ ''/admin/novo_partido.html''),
      (''partidos'', basePath @ ''/admin/partidos.html''),
      (''configuracoes'', basePath @ ''/admin/configuracoes.html''),
      (''relatorios'', basePath @ ''/admin/relatorios.html''),
      (''dashboard'', basePath @ ''/app/dashboard.html''),
      (''cadastro'', basePath @ ''/app/cadastro_de_pautas.html''),
      (''nova_pauta'', basePath @ ''/app/nova_pauta.html''),
      (''editar_pauta'', basePath @ ''/app/editar_pauta.html''),
      (''vereadores'', basePath @ ''/app/vereadores.html''),
      (''editar_vereador'', basePath @ ''/app/editar_vereador.html''),
      (''ordem_do_dia'', basePath @ ''/app/ordem_do_dia.html''),
      (''relatorio'', basePath @ ''/app/relatorio.html''),
      (''perfil'', basePath @ ''/app/perfil_camara.html''),
      (''sessoes'', basePath @ ''/app/sessoes.html'')]"

text \<open>
  \<^verbatim>\<open>pageMap[key]\<close> reads a property of an object literal: an own property gives its
  URL; a name the literal does not have is looked up in \<^verbatim>\<open>Object.prototype\<close>, whose
  members (functions, and the prototype object itself for \<^verbatim>\<open>__proto__\<close>) are no URLs;
  any other name gives \<^verbatim>\<open>undefined\<close>.
\<close>

datatype property_value = OwnValue string | PrototypeMember string | Undefined

definition objectPrototype :: "string list" where
  "objectPrototype =
     [''constructor'', ''__defineGetter__'', ''__defineSetter__'', ''hasOwnProperty'',
      ''__lookupGetter__'', ''__lookupSetter__'', ''isPrototypeOf'', ''propertyIsEnumerable'',
      ''toString'', ''valueOf'', ''__proto__'', ''toLocaleString'']"

definition property_get :: "(string \<times> string) list \<Rightarrow> string \<Rightarrow> property_value" where
  "property_get obj key =
     (case map_of obj key of
        Some v \<Rightarrow> OwnValue v
      | None \<Rightarrow> if key \<in> set objectPrototype then PrototypeMember key else Undefined)"

definition getPageUrl :: "env \<Rightarrow> string \<Rightarrow> property_value" where
  "getPageUrl env pageName =
     (let basePath = getBasePath env;
          key = (if isAdminContext env \<and> pageName = ''dashboard'' then ''dashboard_admin'' else pageName)
      in property_get (pageMap basePath) key)"

subsection \<open>Authentication guard and logout\<close>

text \<open>The body of the \<^verbatim>\<open>try\<close> block of \<^verbatim>\<open>protectPage\<close>.\<close>

definition protectPage_try :: "env \<Rightarrow> state \<Rightarrow> completion \<times> state" where
  "protectPage_try env s =
     (let userData = getItem s ''userData'' in
      if truthy userData then
        (case JSON_parse env (text_of userData) of
           None \<Rightarrow> (Thrown SyntaxError, s)
         | Some v \<Rightarrow>
             (let s1 = s\<lparr>currentUser := Some v\<rparr> in
              case member_text v ''email'' of
                None \<Rightarrow> (Thrown TypeError, s1)
              | Some email \<Rightarrow>
                  (case member_text v ''role'' of
                     None \<Rightarrow> (Thrown TypeError, s1)
                   | Some role \<Rightarrow> (Returned, console_put (GuardUserLogged email role) s1))))
      else (Returned, s))"

definition protectPage :: "env \<Rightarrow> state \<Rightarrow> completion \<times> state" where
  "protectPage env s =
     (let s1 = console_put GuardStart s;
          token = getItem s1 ''authToken''
      in if \<not> truthy token then
           (let s2 = console_put GuardNoToken s1;
                s3 = console_put GuardRedirecting s2;
                s4 = storage_clear s3;
                s5 = assign_href (getBasePath env @ ''/app/login.html'') s4
            in (Thrown NotAuthenticated, s5))
         else
           (let s2 = console_put GuardTokenFound s1
            in try_catch (protectPage_try env)
                 (\<lambda>e c1.
                    let c2 = console_put (GuardParseError e) c1;
                        c3 = storage_clear c2;
                        c4 = assign_href (getBasePath env @ ''/app/login.html'') c3
                    in (Thrown CorruptedUserData, c4))
                 s2))"

definition logout :: "env \<Rightarrow> state \<Rightarrow> completion \<times> state" where
  "logout env s =
     (let s1 = console_put LogoutCalled s;
          authToken = getItem s1 ''authToken''
      in and_then
           (\<lambda>a. if truthy authToken then
                  (let a1 = console_put LogoutSending a
                   in try_catch
                        (\<lambda>t0.
                           let req = \<lparr>url = ''/api/auth/logout'', verb = POST,
                                      headers = [(''Authorization'', ''Bearer '' @ text_of authToken)]\<rparr>
                           in case do_fetch env req t0 of
                                (Rejected error, t1) \<Rightarrow> (Thrown error, t1)
                              | (Resolved response, t1) \<Rightarrow>
                                  if \<not> ok response then (Returned, console_put LogoutServerFailed t1)
                                  else (Returned, console_put LogoutServerOk t1))
                        (\<lambda>error c1. (Returned, console_put (LogoutContactError error) c1))
                        a1)
                else (Returned, a))
           (\<lambda>b. let b1 = removeItem ''authToken'' b;
                    b2 = removeItem ''userData'' b1;
                    b3 = assign_href (getBasePath env @ ''/app/login.html'') b2
                in (Returned, b3))
           s1)"

subsection \<open>Fragment loader\<close>

definition set_innerHTML :: "env \<Rightarrow> nat list \<Rightarrow> string \<Rightarrow> state \<Rightarrow> state" where
  "set_innerHTML env p markup s =
     s\<lparr>document := update_at p (\<lambda>e. set_children (parseHTML env e markup) e) (document s)\<rparr>"

definition error_markup :: "string \<Rightarrow> string" where
  \<open>error_markup componentPath =
     ''<p style="color:red;">Erro ao carregar componente: '' @ componentPath @ ''</p>''\<close>

definition loadComponent :: "env \<Rightarrow> string \<Rightarrow> string \<Rightarrow> state \<Rightarrow> completion \<times> state" where
  "loadComponent env componentPath targetElementId s =
     (case getElementById targetElementId (document s) of
        None \<Rightarrow> (Returned, s)
      | Some targetElement \<Rightarrow>
          try_catch
            (\<lambda>t0.
               case do_fetch env \<lparr>url = componentPath, verb = GET, headers = []\<rparr> t0 of
                 (Rejected error, t1) \<Rightarrow> (Thrown error, t1)
               | (Resolved response, t1) \<Rightarrow>
                   if \<not> ok response then (Thrown (ComponentNotFound componentPath), t1)
                   else (case body_text response of
                           Inl error \<Rightarrow> (Thrown error, t1)
                         | Inr html \<Rightarrow> (Returned, set_innerHTML env targetElement html t1)))
            (\<lambda>error c1.
               let c2 = console_put (ComponentLoadError error) c1
               in (Returned, set_innerHTML env targetElement (error_markup componentPath) c2))
            s)"

subsection \<open>Layout initialiser\<close>

record page_config =
  title :: "string option"
  icon :: "string option"
  navActive :: "string option"

text \<open>
  \<^verbatim>\<open>setupDynamicContent\<close>. Both header elements are looked up before either is
  changed. Setting \<^verbatim>\<open>textContent\<close> replaces the children of the title element, so an
  icon element below it leaves the document, and the class then set on it is not seen.
  On an icon that is an SVG element the assignment to \<^verbatim>\<open>className\<close> does nothing.
\<close>

definition setupDynamicContent :: "page_config option \<Rightarrow> state \<Rightarrow> state" where
  "setupDynamicContent pageConfig s =
     (case pageConfig of
        None \<Rightarrow> s
      | Some cfg \<Rightarrow>
          (let d0 = document s;
               headerTitle = getElementById ''header-title'' d0;
               headerIcon = getElementById ''header-icon'' d0;
               titleSet = (headerTitle \<noteq> None \<and> truthy (title cfg));
               d1 = (case headerTitle of
                       None \<Rightarrow> d0
                     | Some p \<Rightarrow>
                         if truthy (title cfg)
                         then update_at p (set_children [Text (text_of (title cfg))]) d0
                         else d0);
               d2 = (case headerIcon of
                       None \<Rightarrow> d1
                     | Some q \<Rightarrow>
                         if truthy (icon cfg)
                         then (if titleSet \<and> (case headerTitle of None \<Rightarrow> False | Some p \<Rightarrow> proper_prefix p q)
                               then d1
                               else update_at q (set_className (''fa-solid '' @ text_of (icon cfg))) d1)
                         else d1);
               d3 = (if truthy (navActive cfg) then
                       (case getElementById (text_of (navActive cfg)) d2 of
                          None \<Rightarrow> d2
                        | Some r \<Rightarrow> update_at r (classList_add ''active'') d2)
                     else d2)
           in s\<lparr>document := d3\<rparr>))"

text \<open>
  \<^verbatim>\<open>autoFixFormSectionLayout\<close>. The children of the main content area are named by
  their positions \<open>0 ..< length kids\<close>. \<^verbatim>\<open>containersToWrap\<close> collects, selector by
  selector, the positions of the direct children that match; a child that matches two
  selectors is collected twice. \<^verbatim>\<open>appendChild\<close> moves a node: it leaves the parent it
  has (the main content area, or the new inner wrapper if it was appended before) and
  becomes the last child of the inner wrapper. \<^verbatim>\<open>document.createElement("div")\<close> gives
  an HTML element.
\<close>

definition containerSelectors :: "string list" where
  "containerSelectors = [''form-section'', ''pautas-section'', ''dashboard-section'', ''content-section'']"

definition containersToWrap :: "node list \<Rightarrow> nat list" where
  "containersToWrap kids =
     concat (map (\<lambda>selector. filter (\<lambda>i. has_class selector (kids ! i)) [0..<length kids])
               containerSelectors)"

definition appendChild_pos :: "nat \<Rightarrow> nat list \<times> nat list \<Rightarrow> nat list \<times> nat list" where
  "appendChild_pos i = (\<lambda>(main, area). (removeAll i main, removeAll i area @ [i]))"

definition autoFixFormSectionLayout :: "state \<Rightarrow> state" where
  "autoFixFormSectionLayout s =
     (case find_first (has_class ''main-content'') (document s) of
        None \<Rightarrow> s
      | Some mainContent \<Rightarrow>
          (case get_at mainContent (document s) of
             None \<Rightarrow> s
           | Some main \<Rightarrow>
               if find_descendant (has_class ''page-content-wrapper'') main \<noteq> None then s
               else
                 (let kids = children main;
                      containers = containersToWrap kids
                  in if containers = [] then s
                     else
                       (let s1 = console_put (AutoFixWrapping (map (\<lambda>i. className (kids ! i)) containers)) s;
                            pageContentWrapper = set_className ''page-content-wrapper'' (Element (HTML, ''div'') [] []);
                            contentArea = set_className ''content-area'' (Element (HTML, ''div'') [] []);
                            (remaining, moved) = fold appendChild_pos containers ([0..<length kids], []);
                            contentArea' = set_children (map (\<lambda>i. kids ! i) moved) contentArea;
                            pageContentWrapper' = set_children [contentArea'] pageContentWrapper
                        in s1\<lparr>document :=
                               update_at mainContent
                                 (set_children (map (\<lambda>i. kids ! i) remaining @ [pageContentWrapper']))
                                 (document s1)\<rparr>))))"

text \<open>
  \<^verbatim>\<open>setupEventListeners\<close> registers click listeners and an intersection observer, and
  replaces every navigation link by a deep copy of itself. The tree is the same after
  it, and listeners are no part of the state.
\<close>

definition setupEventListeners :: "state \<Rightarrow> state" where
  "setupEventListeners s = s"

definition initLayout :: "env \<Rightarrow> page_config option \<Rightarrow> state \<Rightarrow> completion \<times> state" where
  "initLayout env pageConfig s =
     (let path = pathname env;
          basePath = getBasePath env
      in and_then
           (\<lambda>a. if includes_str path ''/admin/'' then
                  and_then
                    (loadComponent env (basePath @ ''/components/admin_sidebar.html'') ''sidebar-placeholder'')
                    (loadComponent env (basePath @ ''/components/admin_header.html'') ''header-placeholder'')
                    a
                else if includes_str path ''/app/'' then
                  and_then
                    (loadComponent env (basePath @ ''/components/app_sidebar.html'') ''sidebar-placeholder'')
                    (loadComponent env (basePath @ ''/components/app_header.html'') ''header-placeholder'')
                    a
                else if includes_str path ''/portal/'' then
                  and_then
                    (loadComponent env (basePath @ ''/components/portal_navbar.html'') ''navbar-placeholder'')
                    (loadComponent env (basePath @ ''/components/portal_footer.html'') ''footer-placeholder'')
                    a
                else (Returned, a))
           (\<lambda>b. (Returned, setupEventListeners (autoFixFormSectionLayout (setupDynamicContent pageConfig b))))
           s)"

subsection \<open>Notions used to state the properties\<close>

text \<open>The last element of a list that satisfies a predicate, if there is one.\<close>

definition last_of :: "('c \<Rightarrow> bool) \<Rightarrow> 'c list \<Rightarrow> 'c option" where
  "last_of Q cs = (case filter Q cs of [] \<Rightarrow> None | ys \<Rightarrow> Some (last ys))"

text \<open>
  The section class a node counts under: the last of the four selectors of
  \<^verbatim>\<open>containerSelectors\<close> that it matches, \<open>None\<close> if it matches none.
\<close>

definition section_class :: "node \<Rightarrow> string option" where
  "section_class k = last_of (\<lambda>c. has_class c k) containerSelectors"

text \<open>
  What the specification of the fragment loader (section 4.2) says of a load of the
  fragment \<open>path\<close> into the existing target element at \<open>p\<close>: one fetch of the path is
  issued; on an OK response whose text can be read the content of the target becomes
  that text, parsed; on every failure the error is logged and the content of the target
  becomes the error paragraph that names the path. This is the yardstick the code of
  \<^verbatim>\<open>loadComponent\<close> and \<^verbatim>\<open>initLayout\<close> is compared with.
\<close>

definition fragment_loaded :: "env \<Rightarrow> string \<Rightarrow> nat list \<Rightarrow> state \<Rightarrow> state" where
  "fragment_loaded env path p s =
     (let call = \<lparr>url = path, verb = GET, headers = []\<rparr>;
          (markup, logged) =
            (case fetch env (fetch_calls s) call of
               Rejected e \<Rightarrow> (error_markup path, [ComponentLoadError e])
             | Resolved r \<Rightarrow>
                 if ok r
                 then (case body_text r of
                         Inr html \<Rightarrow> (html, [])
                       | Inl e \<Rightarrow> (error_markup path, [ComponentLoadError e]))
                 else (error_markup path, [ComponentLoadError (ComponentNotFound path)]))
      in s\<lparr>fetch_calls := fetch_calls s @ [call],
           console := console s @ logged,
           document := update_at p (\<lambda>e. set_children (parseHTML env e markup) e) (document s)\<rparr>)"

subsection \<open>Example pages\<close>

text \<open>
  A stored user record, and a table that agrees with \<^verbatim>\<open>JSON.parse\<close> on the strings the
  examples store: the user record, \<^verbatim>\<open>null\<close>, and two strings that are no JSON text
  (the empty string and \<^verbatim>\<open>{oops\<close>).
\<close>

definition user_json :: string where
  \<open>user_json = ''{"email":"ana@camara.leg.br","role":"admin"}''\<close>

definition parse_table :: "string \<Rightarrow> json option" where
  "parse_table t =
     (if t = user_json
      then Some (JObject [(''email'', JString ''ana@camara.leg.br''), (''role'', JString ''admin'')])
      else if t = ''null'' then Some JNull
      else None)"

text \<open>
  Two fragments of the administrative context, and a table that agrees with the HTML
  parser on them and on the error paragraphs of the fragment loader. Other markup is
  taken as plain text here.
\<close>

definition sidebar_html :: string where
  \<open>sidebar_html = ''<a id="nav-partidos">Partidos</a>''\<close>

definition header_html :: string where
  \<open>header_html = ''<i id="header-icon"></i><h1 id="header-title"></h1>''\<close>

definition html_table :: "node \<Rightarrow> string \<Rightarrow> node list" where
  "html_table e m =
     (if m = sidebar_html
      then [Element (HTML, ''a'') [(''id'', ''nav-partidos'')] [Text ''Partidos'']]
      else if m = header_html
      then [Element (HTML, ''i'') [(''id'', ''header-icon'')] [],
            Element (HTML, ''h1'') [(''id'', ''header-title'')] []]
      else if m = error_markup ''/telas2/components/admin_sidebar.html''
      then [Element (HTML, ''p'') [(''style'', ''color:red;'')]
              [Text ''Erro ao carregar componente: /telas2/components/admin_sidebar.html'']]
      else if m = error_markup ''/telas2/components/admin_header.html''
      then [Element (HTML, ''p'') [(''style'', ''color:red;'')]
              [Text ''Erro ao carregar componente: /telas2/components/admin_header.html'']]
      else [Text m])"

text \<open>An administrative page whose fetches all fail in transport.\<close>

definition offline_admin :: env where
  "offline_admin =
     \<lparr>pathname = ''/telas2/admin/partidos.html'',
      fetch = (\<lambda>earlier r. Rejected (HostError ''Failed to fetch'')),
      JSON_parse = parse_table,
      parseHTML = html_table\<rparr>"

text \<open>The same page with a server that delivers the two fragments.\<close>

definition online_admin :: env where
  "online_admin =
     offline_admin
       \<lparr>fetch := (\<lambda>earlier r.
           if url r = ''/telas2/components/admin_sidebar.html''
           then Resolved (Response True (Inr sidebar_html))
           else if url r = ''/telas2/components/admin_header.html''
           then Resolved (Response True (Inr header_html))
           else Resolved (Response False (Inr [])))\<rparr>"

text \<open>A page outside the three contexts, and a page of the portal.\<close>

definition standalone :: env where
  "standalone = offline_admin\<lparr>pathname := ''/telas2/index.html''\<rparr>"

definition portal_home :: env where
  "portal_home = online_admin\<lparr>pathname := ''/telas2/portal/index.html''\<rparr>"

definition partidos_config :: page_config where
  "partidos_config = \<lparr>title = Some ''Partidos'', icon = Some ''fa-flag'', navActive = Some ''nav-partidos''\<rparr>"

definition section_A :: node where
  "section_A = Element (HTML, ''section'') [(''class'', ''content-section'')] [Text ''A'']"

definition section_B :: node where
  "section_B = Element (HTML, ''section'') [(''class'', ''form-section'')] [Text ''B'']"

definition legacy_document :: node where
  "legacy_document =
     Element (HTML, ''body'') []
       [Element (HTML, ''div'') [(''id'', ''sidebar-placeholder'')] [],
        Element (HTML, ''div'') [(''id'', ''header-placeholder'')] [],
        Element (HTML, ''main'') [(''class'', ''main-content'')] [section_A, section_B]]"

definition page :: "node \<Rightarrow> (string \<times> string) list \<Rightarrow> state" where
  "page d stored =
     \<lparr>document = d, localStorage = map_of stored, location_href = None, currentUser = None,
      console = [], fetch_calls = []\<rparr>"

section \<open>Properties\<close>

subsection \<open>Auxiliary facts\<close>

lemmas state_ops = console_put_def getItem_def removeItem_def storage_clear_def assign_href_def
  do_fetch_def and_then_def try_catch_def

lemmas example_defs = offline_admin_def online_admin_def standalone_def portal_home_def page_def
  legacy_document_def section_A_def section_B_def parse_table_def user_json_def html_table_def
  sidebar_html_def header_html_def partidos_config_def error_markup_def

lemmas dom_defs = getElementById_def find_descendant_def has_class_def class_attr_def tokens_def
  is_space_def




lemma first_some_SomeD:
  "first_some i xs = Some q \<Longrightarrow>
     \<exists>j p. q = (i + j) # p \<and> j < length xs \<and> xs ! j = Some p"
proof (induction i xs rule: first_some.induct)
  case (1 i)
  then show ?case by simp
next
  case (2 i r)
  then obtain j p where "q = (Suc i + j) # p" "j < length r" "r ! j = Some p" by auto
  then show ?case by (intro exI[of _ "Suc j"] exI[of _ p]) simp
next
  case (3 i p r)
  then show ?case by (intro exI[of _ 0] exI[of _ p]) simp
qed

lemma first_some_append_Some: "first_some i (xs @ [Some p]) \<noteq> None"
proof (induction xs arbitrary: i)
  case Nil
  show ?case by simp
next
  case (Cons x xs)
  then show ?case by (cases x) simp_all
qed

text \<open>A path found by the search leads to an element that satisfies the predicate.\<close>

lemma find_first_get_at:
  "find_first P d = Some p \<Longrightarrow> \<exists>t a cs. get_at p d = Some (Element t a cs) \<and> P (Element t a cs)"
proof (induction P d arbitrary: p rule: find_first.induct)
  case (1 P s)
  then show ?case by simp
next
  case (2 P t a cs)
  show ?case
  proof (cases "P (Element t a cs)")
    case True
    with "2.prems" show ?thesis by simp
  next
    case False
    with "2.prems" have "first_some 0 (map (find_first P) cs) = Some p" by simp
    then obtain j p' where p: "p = j # p'" and j: "j < length cs"
      and f: "find_first P (cs ! j) = Some p'"
      by (auto dest!: first_some_SomeD)
    from j have "cs ! j \<in> set cs" by simp
    from "2.IH"[OF False this f] p j show ?thesis by simp
  qed
qed

lemma get_at_update_at:
  "get_at p d = Some n \<Longrightarrow> get_at p (update_at p f d) = Some (f n)"
proof (induction p arbitrary: d)
  case Nil
  then show ?case by simp
next
  case (Cons i p)
  then show ?case by (cases d) (auto split: if_splits)
qed


text \<open>
  A change of the children of the element found leaves it the first match, when the
  predicate looks at tag and attributes only.
\<close>

lemma find_first_update_at:
  assumes attr_only: "\<And>t a cs cs'. P (Element t a cs) = P (Element t a cs')"
    and keeps: "\<And>t a cs. \<exists>cs'. f (Element t a cs) = Element t a cs'"
  shows "find_first P d = Some p \<Longrightarrow> find_first P (update_at p f d) = Some p"
proof (induction d arbitrary: p)
  case (Text s)
  then show ?case by simp
next
  case (Element t a cs)
  show ?case
  proof (cases "P (Element t a cs)")
    case True
    with Element.prems have p: "p = []" by simp
    from keeps obtain cs' where "f (Element t a cs) = Element t a cs'" by blast
    with True p attr_only[of t a cs' cs] show ?thesis by simp
  next
    case False
    with Element.prems have fs: "first_some 0 (map (find_first P) cs) = Some p" by simp
    then obtain j p' where p: "p = j # p'" and j: "j < length cs"
      and f: "find_first P (cs ! j) = Some p'"
      by (auto dest!: first_some_SomeD)
    from j have "cs ! j \<in> set cs" by simp
    from Element.IH[OF this f] have "find_first P (update_at p' f (cs ! j)) = find_first P (cs ! j)"
      using f by simp
    then have "map (find_first P) (cs[j := update_at p' f (cs ! j)]) = map (find_first P) cs"
      using j by (simp add: map_update list_eq_iff_nth_eq nth_list_update)
    moreover have "\<not> P (Element t a (cs[j := update_at p' f (cs ! j)]))"
      using False attr_only[of t a "cs[j := update_at p' f (cs ! j)]" cs] by simp
    ultimately show ?thesis using p j fs by simp
  qed
qed

lemma has_class_attr_only: "has_class c (Element t a cs) = has_class c (Element t a cs')"
  by (simp add: has_class_def class_attr_def)

lemma set_children_keeps: "\<exists>cs'. set_children k (Element t a cs) = Element t a cs'"
  by simp

text \<open>The fragment loader returns, and fetches if and only if its target is there.\<close>

lemma loadComponent_returns: "fst (loadComponent env p t s) = Returned"
  by (auto simp: loadComponent_def state_ops
           split: option.splits fetch_outcome.splits sum.splits)

lemma loadComponent_fetch_calls:
  "fetch_calls (snd (loadComponent env p t s)) =
     fetch_calls s @ (if getElementById t (document s) = None then []
                      else [\<lparr>url = p, verb = GET, headers = []\<rparr>])"
  by (auto simp: loadComponent_def state_ops set_innerHTML_def
           split: option.splits fetch_outcome.splits sum.splits)

text \<open>With its target present, the fragment loader does what its specification says.\<close>

lemma loadComponent_present:
  assumes "getElementById t (document s) = Some p"
  shows "loadComponent env u t s = (Returned, fragment_loaded env u p s)"
  using assms
  by (auto simp: loadComponent_def fragment_loaded_def state_ops set_innerHTML_def Let_def
           split: fetch_outcome.splits sum.splits)

lemma fetch_calls_fragment_loaded:
  "fetch_calls (fragment_loaded env u p s) = fetch_calls s @ [\<lparr>url = u, verb = GET, headers = []\<rparr>]"
  by (simp add: fragment_loaded_def Let_def split_def)

lemma fetch_calls_setupDynamicContent: "fetch_calls (setupDynamicContent cfg s) = fetch_calls s"
  by (simp add: setupDynamicContent_def Let_def split: option.splits)

lemma fetch_calls_autoFix: "fetch_calls (autoFixFormSectionLayout s) = fetch_calls s"
  by (simp add: autoFixFormSectionLayout_def Let_def console_put_def split: option.splits prod.splits)

lemma initLayout_two:
  assumes run: "initLayout env cfg s =
             and_then
               (and_then (loadComponent env u1 t1) (loadComponent env u2 t2))
               (\<lambda>b. (Returned, setupEventListeners (autoFixFormSectionLayout (setupDynamicContent cfg b))))
               s"
    and p1: "getElementById t1 (document s) = Some p1"
    and p2: "getElementById t2 (document (fragment_loaded env u1 p1 s)) = Some p2"
  shows "initLayout env cfg s =
           (Returned,
            setupEventListeners (autoFixFormSectionLayout (setupDynamicContent cfg
              (fragment_loaded env u2 p2 (fragment_loaded env u1 p1 s)))))
         \<and> fetch_calls (snd (initLayout env cfg s)) =
             fetch_calls s @ [\<lparr>url = u1, verb = GET, headers = []\<rparr>,
                              \<lparr>url = u2, verb = GET, headers = []\<rparr>]"
proof -
  have "and_then (loadComponent env u1 t1) (loadComponent env u2 t2) s =
          (Returned, fragment_loaded env u2 p2 (fragment_loaded env u1 p1 s))"
    by (simp add: and_then_def loadComponent_present[OF p1] loadComponent_present[OF p2])
  with run have result: "initLayout env cfg s =
           (Returned,
            setupEventListeners (autoFixFormSectionLayout (setupDynamicContent cfg
              (fragment_loaded env u2 p2 (fragment_loaded env u1 p1 s)))))"
    by (simp add: and_then_def)
  then show ?thesis
    by (simp add: setupEventListeners_def fetch_calls_autoFix fetch_calls_setupDynamicContent
          fetch_calls_fragment_loaded)
qed

text \<open>The moves of \<^verbatim>\<open>appendChild\<close>, in closed form.\<close>

lemma fold_appendChild_pos:
  "fold appendChild_pos xs (m, a) =
     (filter (\<lambda>i. i \<notin> set xs) m, filter (\<lambda>i. i \<notin> set xs) a @ remdups xs)"
proof (induction xs arbitrary: m a)
  case Nil
  show ?case by simp
next
  case (Cons x xs)
  have "fold appendChild_pos (x # xs) (m, a) = fold appendChild_pos xs (removeAll x m, removeAll x a @ [x])"
    by (simp add: appendChild_pos_def)
  also have "\<dots> = (filter (\<lambda>i. i \<notin> set xs) (removeAll x m),
                   filter (\<lambda>i. i \<notin> set xs) (removeAll x a @ [x]) @ remdups xs)"
    by (rule Cons.IH)
  also have "\<dots> = (filter (\<lambda>i. i \<notin> set (x # xs)) m, filter (\<lambda>i. i \<notin> set (x # xs)) a @ remdups (x # xs))"
    by (auto simp: removeAll_filter_not_eq intro: filter_cong)
  finally show ?case .
qed

lemma map_nth_filter:
  "map (\<lambda>i. xs ! i) (filter (\<lambda>i. P (xs ! i)) [0..<length xs]) = filter P xs"
proof -
  have "filter P xs = filter P (map (\<lambda>i. xs ! i) [0..<length xs])"
    by (simp add: map_nth)
  also have "\<dots> = map (\<lambda>i. xs ! i) (filter (\<lambda>i. P (xs ! i)) [0..<length xs])"
    by (simp add: filter_map comp_def)
  finally show ?thesis by simp
qed

lemma last_of_Cons_head:
  assumes c: "c \<notin> set cs"
  shows "(last_of Q (c # cs) = Some c) = (Q c \<and> filter Q cs = [])"
proof (cases "filter Q cs")
  case Nil
  then show ?thesis by (simp add: last_of_def)
next
  case (Cons y ys)
  then have "last (filter Q cs) \<in> set cs"
    by (metis filter_is_subset last_in_set list.distinct(1) subsetD)
  with c have "last (filter Q cs) \<noteq> c" by auto
  with Cons show ?thesis by (auto simp: last_of_def)
qed

lemma last_of_Cons_tail:
  "c \<notin> set cs \<Longrightarrow> c' \<in> set cs \<Longrightarrow> (last_of Q (c # cs) = Some c') = (last_of Q cs = Some c')"
  by (cases "filter Q cs") (auto simp: last_of_def)

lemma remdups_append_filter:
  "remdups (xs @ ys) = remdups (filter (\<lambda>x. x \<notin> set ys) xs) @ remdups ys"
  by (induction xs) auto

text \<open>
  Collecting selector by selector and keeping the last occurrence of each position
  groups the positions by the last selector they match.
\<close>

lemma remdups_grouped:
  assumes "distinct idx" and "distinct sels"
  shows "remdups (concat (map (\<lambda>c. filter (\<lambda>i. H c i) idx) sels)) =
         concat (map (\<lambda>c. filter (\<lambda>i. last_of (\<lambda>c. H c i) sels = Some c) idx) sels)"
  using assms(2)
proof (induction sels)
  case Nil
  show ?case by simp
next
  case (Cons c cs)
  let ?G = "concat (map (\<lambda>c. filter (\<lambda>i. H c i) idx) cs)"
  have setG: "set ?G = {i \<in> set idx. \<exists>c' \<in> set cs. H c' i}" by auto
  from Cons.prems have c: "c \<notin> set cs" and dcs: "distinct cs" by simp_all
  have "remdups (concat (map (\<lambda>c. filter (\<lambda>i. H c i) idx) (c # cs))) =
        remdups (filter (\<lambda>i. i \<notin> set ?G) (filter (\<lambda>i. H c i) idx)) @ remdups ?G"
    unfolding list.map concat.simps by (rule remdups_append_filter)
  also have "remdups (filter (\<lambda>i. i \<notin> set ?G) (filter (\<lambda>i. H c i) idx)) =
             filter (\<lambda>i. i \<notin> set ?G) (filter (\<lambda>i. H c i) idx)"
    using assms(1) by (simp add: distinct_remdups_id)
  also have "filter (\<lambda>i. i \<notin> set ?G) (filter (\<lambda>i. H c i) idx) =
             filter (\<lambda>i. last_of (\<lambda>c. H c i) (c # cs) = Some c) idx"
    unfolding filter_filter
  proof (rule filter_cong[OF refl])
    fix i assume "i \<in> set idx"
    then have "(i \<notin> set ?G) = (filter (\<lambda>c'. H c' i) cs = [])"
      unfolding setG by (auto simp: filter_empty_conv)
    then show "(H c i \<and> i \<notin> set ?G) = (last_of (\<lambda>c. H c i) (c # cs) = Some c)"
      using last_of_Cons_head[OF c, of "\<lambda>c. H c i"] by auto
  qed
  also have "remdups ?G = concat (map (\<lambda>c'. filter (\<lambda>i. last_of (\<lambda>c. H c i) cs = Some c') idx) cs)"
    by (rule Cons.IH[OF dcs])
  also have "\<dots> = concat (map (\<lambda>c'. filter (\<lambda>i. last_of (\<lambda>c. H c i) (c # cs) = Some c') idx) cs)"
    using last_of_Cons_tail[OF c] by (auto intro!: arg_cong[of _ _ concat] map_cong filter_cong)
  finally show ?case by simp
qed

lemma section_class_None: "(section_class k = None) = (\<forall>c \<in> set containerSelectors. \<not> has_class c k)"
proof -
  have "(section_class k = None) = (filter (\<lambda>c. has_class c k) containerSelectors = [])"
    by (simp add: section_class_def last_of_def split: list.splits)
  then show ?thesis by (simp add: filter_empty_conv)
qed

lemma set_containersToWrap:
  "set (containersToWrap kids) = {i. i < length kids \<and> section_class (kids ! i) \<noteq> None}"
  by (auto simp: containersToWrap_def section_class_None)

lemma containersToWrap_Nil:
  "(containersToWrap kids = []) = (\<forall>k \<in> set kids. section_class k = None)"
proof -
  have "(containersToWrap kids = []) = (set (containersToWrap kids) = {})" by simp
  also have "\<dots> = (\<forall>i < length kids. section_class (kids ! i) = None)"
    unfolding set_containersToWrap by auto
  also have "\<dots> = (\<forall>k \<in> set kids. section_class k = None)"
    by (simp add: all_set_conv_all_nth)
  finally show ?thesis .
qed

text \<open>What the repair does when it applies.\<close>

lemma autoFix_repair:
  assumes main: "find_first (has_class ''main-content'') (document s) = Some mainContent"
    and at: "get_at mainContent (document s) = Some (Element t a kids)"
    and nowrap: "find_descendant (has_class ''page-content-wrapper'') (Element t a kids) = None"
    and some: "\<exists>k \<in> set kids. section_class k \<noteq> None"
  shows "autoFixFormSectionLayout s =
           s\<lparr>console := console s @
                [AutoFixWrapping (map (\<lambda>i. className (kids ! i)) (containersToWrap kids))],
             document := update_at mainContent
                (set_children
                   (filter (\<lambda>k. section_class k = None) kids @
                    [Element (HTML, ''div'') [(''class'', ''page-content-wrapper'')]
                       [Element (HTML, ''div'') [(''class'', ''content-area'')]
                          (concat (map (\<lambda>c. filter (\<lambda>k. section_class k = Some c) kids)
                             containerSelectors))]]))
                (document s)\<rparr>"
proof -
  let ?idx = "[0..<length kids]"
  define R where "R = filter (\<lambda>i. i \<notin> set (containersToWrap kids)) ?idx"
  define M where "M = remdups (containersToWrap kids)"
  from some have nonempty: "containersToWrap kids \<noteq> []"
    by (simp add: containersToWrap_Nil)
  have moves: "fold appendChild_pos (containersToWrap kids) (?idx, []) = (R, M)"
    by (simp add: fold_appendChild_pos R_def M_def)
  have "R = filter (\<lambda>i. section_class (kids ! i) = None) ?idx"
    unfolding R_def set_containersToWrap by (rule filter_cong) auto
  then have remaining: "map (\<lambda>i. kids ! i) R = filter (\<lambda>k. section_class k = None) kids"
    using map_nth_filter[of kids "\<lambda>k. section_class k = None"] by simp
  have "M = concat (map (\<lambda>c. filter (\<lambda>i. section_class (kids ! i) = Some c) ?idx) containerSelectors)"
    unfolding M_def containersToWrap_def section_class_def
    by (rule remdups_grouped) (simp_all add: containerSelectors_def)
  then have "map (\<lambda>i. kids ! i) M =
          concat (map (\<lambda>c. map (\<lambda>i. kids ! i) (filter (\<lambda>i. section_class (kids ! i) = Some c) ?idx))
            containerSelectors)"
    by (simp add: map_concat comp_def)
  then have moved: "map (\<lambda>i. kids ! i) M =
          concat (map (\<lambda>c. filter (\<lambda>k. section_class k = Some c) kids) containerSelectors)"
    using map_nth_filter[of kids "\<lambda>k. section_class k = Some c" for c] by simp
  show ?thesis
    unfolding autoFixFormSectionLayout_def
    using main at nowrap nonempty
    by (simp add: Let_def moves remaining moved console_put_def set_className_def del: upt.simps)
qed

subsection \<open>Authentication guard\<close>

text \<open>
  Claim C1, as stated, fails where the stored \<^verbatim>\<open>userData\<close> is the empty string: the
  string is no JSON text, but the guard \<^verbatim>\<open>if (userData)\<close> skips the parse, and
  \<^verbatim>\<open>protectPage\<close> returns normally with the store and the location untouched.
\<close>

theorem protectPage_empty_userData_counterexample:
  "localStorage (page legacy_document [(''authToken'', ''tok123''), (''userData'', '''')]) ''authToken''
     = Some ''tok123''
   \<and> localStorage (page legacy_document [(''authToken'', ''tok123''), (''userData'', '''')]) ''userData''
     = Some ''''
   \<and> JSON_parse offline_admin '''' = None
   \<and> protectPage offline_admin (page legacy_document [(''authToken'', ''tok123''), (''userData'', '''')])
     = (Returned,
        (page legacy_document [(''authToken'', ''tok123''), (''userData'', '''')])
          \<lparr>console := [GuardStart, GuardTokenFound]\<rparr>)"
  by (simp add: protectPage_def protectPage_try_def state_ops truthy_def example_defs)

text \<open>
  Claim C1, amended: where no token is stored (none, or the empty string), and where a
  token is stored and the stored \<^verbatim>\<open>userData\<close> is a non-empty string that
  \<^verbatim>\<open>JSON.parse\<close> rejects or parses to \<^verbatim>\<open>null\<close>, \<^verbatim>\<open>protectPage\<close> throws, the store
  ends empty, and the login page of the base path is assigned to the location.
\<close>

theorem protectPage_rejects:
  assumes "\<not> truthy (localStorage s ''authToken'')
           \<or> (truthy (localStorage s ''authToken'') \<and> localStorage s ''userData'' = Some u \<and> u \<noteq> []
              \<and> (JSON_parse env u = None \<or> JSON_parse env u = Some JNull))"
  shows "fst (protectPage env s) =
           Thrown (if truthy (localStorage s ''authToken'') then CorruptedUserData else NotAuthenticated)
         \<and> localStorage (snd (protectPage env s)) = Map.empty
         \<and> location_href (snd (protectPage env s)) = Some (getBasePath env @ ''/app/login.html'')"
  using assms
  by (auto simp: protectPage_def protectPage_try_def state_ops truthy_def text_of_def
        member_text_def Let_def)

theorem protectPage_rejects_witness:
  "localStorage (page legacy_document []) ''authToken'' = None
   \<and> fst (protectPage offline_admin (page legacy_document [])) = Thrown NotAuthenticated
   \<and> localStorage (snd (protectPage offline_admin (page legacy_document []))) = Map.empty
   \<and> location_href (snd (protectPage offline_admin (page legacy_document [])))
       = Some ''/telas2/app/login.html''
   \<and> localStorage (page legacy_document [(''authToken'', ''tok123''), (''userData'', ''{oops'')]) ''userData''
       = Some ''{oops''
   \<and> JSON_parse offline_admin ''{oops'' = None
   \<and> fst (protectPage offline_admin
            (page legacy_document [(''authToken'', ''tok123''), (''userData'', ''{oops'')]))
       = Thrown CorruptedUserData
   \<and> localStorage (snd (protectPage offline_admin
            (page legacy_document [(''authToken'', ''tok123''), (''userData'', ''{oops'')])))
       = Map.empty
   \<and> location_href (snd (protectPage offline_admin
            (page legacy_document [(''authToken'', ''tok123''), (''userData'', ''{oops'')])))
       = Some ''/telas2/app/login.html''"
proof -
  let ?s = "page legacy_document []"
  let ?c = "page legacy_document [(''authToken'', ''tok123''), (''userData'', ''{oops'')]"
  have none: "\<not> truthy (localStorage ?s ''authToken'')"
    by (simp add: truthy_def page_def)
  have parse: "JSON_parse offline_admin ''{oops'' = None"
    by (simp add: offline_admin_def parse_table_def user_json_def)
  have stored: "localStorage ?c ''userData'' = Some ''{oops''"
    by (simp add: page_def)
  have bad: "truthy (localStorage ?c ''authToken'') \<and> localStorage ?c ''userData'' = Some ''{oops''
      \<and> ''{oops'' \<noteq> [] \<and> (JSON_parse offline_admin ''{oops'' = None \<or> JSON_parse offline_admin ''{oops'' = Some JNull)"
    using parse stored by (simp add: truthy_def page_def)
  have base: "getBasePath offline_admin = ''/telas2''"
    by (simp add: getBasePath_def offline_admin_def)
  from protectPage_rejects[where s="?s" and env=offline_admin, OF disjI1, OF none]
       protectPage_rejects[where s="?c" and u="''{oops''" and env=offline_admin, OF disjI2, OF bad]
  show ?thesis
    using parse stored base by (simp add: page_def truthy_def)
qed

text \<open>
  Claim C2: where a token is stored (a non-empty string) and the stored \<^verbatim>\<open>userData\<close>
  parses to a user record, an object with the strings \<^verbatim>\<open>email\<close> and \<^verbatim>\<open>role\<close>,
  \<^verbatim>\<open>protectPage\<close> returns normally; the one change besides the three console lines is
  that \<^verbatim>\<open>window.currentUser\<close> holds the parsed record: no location is assigned, the store
  is as before. (No JSON text is empty, so \<open>u \<noteq> []\<close> excludes no parseable record.)
\<close>

theorem protectPage_accepts:
  assumes "truthy (localStorage s ''authToken'')"
    and "localStorage s ''userData'' = Some u" and "u \<noteq> []"
    and "JSON_parse env u = Some (JObject kvs)"
    and "map_of kvs ''email'' = Some (JString email)"
    and "map_of kvs ''role'' = Some (JString role)"
  shows "protectPage env s =
           (Returned, s\<lparr>currentUser := Some (JObject kvs),
                        console := console s @ [GuardStart, GuardTokenFound, GuardUserLogged email role]\<rparr>)
         \<and> location_href (snd (protectPage env s)) = location_href s
         \<and> localStorage (snd (protectPage env s)) = localStorage s
         \<and> currentUser (snd (protectPage env s)) = Some (JObject kvs)"
  using assms
  by (simp add: protectPage_def protectPage_try_def state_ops truthy_def text_of_def
        member_text_def Let_def)

theorem protectPage_accepts_witness:
  "truthy (localStorage (page legacy_document [(''authToken'', ''tok123''), (''userData'', user_json)]) ''authToken'')
   \<and> JSON_parse offline_admin user_json
       = Some (JObject [(''email'', JString ''ana@camara.leg.br''), (''role'', JString ''admin'')])
   \<and> protectPage offline_admin (page legacy_document [(''authToken'', ''tok123''), (''userData'', user_json)])
       = (Returned,
          (page legacy_document [(''authToken'', ''tok123''), (''userData'', user_json)])
            \<lparr>currentUser := Some (JObject [(''email'', JString ''ana@camara.leg.br''), (''role'', JString ''admin'')]),
             console := [GuardStart, GuardTokenFound, GuardUserLogged ''ana@camara.leg.br'' ''admin'']\<rparr>)"
proof -
  let ?s = "page legacy_document [(''authToken'', ''tok123''), (''userData'', user_json)]"
  let ?kvs = "[(''email'', JString ''ana@camara.leg.br''), (''role'', JString ''admin'')]"
  have h1: "truthy (localStorage ?s ''authToken'')" by (simp add: truthy_def page_def)
  have h2: "localStorage ?s ''userData'' = Some user_json" by (simp add: page_def)
  have h3: "user_json \<noteq> []" by (simp add: user_json_def)
  have h4: "JSON_parse offline_admin user_json = Some (JObject ?kvs)"
    by (simp add: offline_admin_def parse_table_def)
  have h5: "map_of ?kvs ''email'' = Some (JString ''ana@camara.leg.br'')" by simp
  have h6: "map_of ?kvs ''role'' = Some (JString ''admin'')" by simp
  from protectPage_accepts[OF h1 h2 h3 h4 h5 h6] h1 h4 show ?thesis
    by (simp add: page_def)
qed

text \<open>
  Claim C10: where a token is stored (a non-empty string) and no \<^verbatim>\<open>userData\<close> entry
  is stored at all, \<^verbatim>\<open>protectPage\<close> returns normally and changes nothing but the
  console: the store, the location and \<^verbatim>\<open>window.currentUser\<close> are as before.
\<close>

theorem protectPage_without_userData:
  assumes "truthy (localStorage s ''authToken'')" and "localStorage s ''userData'' = None"
  shows "protectPage env s = (Returned, s\<lparr>console := console s @ [GuardStart, GuardTokenFound]\<rparr>)
         \<and> localStorage (snd (protectPage env s)) = localStorage s
         \<and> location_href (snd (protectPage env s)) = location_href s
         \<and> currentUser (snd (protectPage env s)) = currentUser s"
  using assms
  by (simp add: protectPage_def protectPage_try_def state_ops truthy_def Let_def)

theorem protectPage_without_userData_witness:
  "truthy (localStorage (page legacy_document [(''authToken'', ''tok123'')]) ''authToken'')
   \<and> localStorage (page legacy_document [(''authToken'', ''tok123'')]) ''userData'' = None
   \<and> protectPage offline_admin (page legacy_document [(''authToken'', ''tok123'')])
       = (Returned, (page legacy_document [(''authToken'', ''tok123'')])\<lparr>console := [GuardStart, GuardTokenFound]\<rparr>)
   \<and> currentUser (snd (protectPage offline_admin (page legacy_document [(''authToken'', ''tok123'')]))) = None"
proof -
  let ?s = "page legacy_document [(''authToken'', ''tok123'')]"
  have h1: "truthy (localStorage ?s ''authToken'')" by (simp add: truthy_def page_def)
  have h2: "localStorage ?s ''userData'' = None" by (simp add: page_def)
  from protectPage_without_userData[OF h1 h2, where env=offline_admin] h1 h2 show ?thesis
    by (simp add: page_def)
qed

subsection \<open>Logout\<close>

text \<open>
  Claim C9: whatever the fetch does, \<^verbatim>\<open>logout\<close> returns normally, removes
  \<^verbatim>\<open>authToken\<close> and \<^verbatim>\<open>userData\<close> from the store (and nothing else) and assigns the login
  page to the location. With a token stored (a non-empty string) it issues one fetch, a
  POST to \<^verbatim>\<open>/api/auth/logout\<close> with the header \<^verbatim>\<open>Authorization: Bearer\<close> and the token,
  and logs its outcome: a rejection as an error, a non-OK response as a warning.
  Without a token it issues none.
\<close>

theorem logout_always_clears:
  "fst (logout env s) = Returned
   \<and> localStorage (snd (logout env s)) = (localStorage s)(''authToken'' := None, ''userData'' := None)
   \<and> location_href (snd (logout env s)) = Some (getBasePath env @ ''/app/login.html'')
   \<and> fetch_calls (snd (logout env s)) =
       (if truthy (localStorage s ''authToken'')
        then fetch_calls s @ [\<lparr>url = ''/api/auth/logout'', verb = POST,
               headers = [(''Authorization'', ''Bearer '' @ text_of (localStorage s ''authToken''))]\<rparr>]
        else fetch_calls s)
   \<and> console (snd (logout env s)) =
       console s @ [LogoutCalled] @
       (if truthy (localStorage s ''authToken'')
        then [LogoutSending,
              (case fetch env (fetch_calls s) \<lparr>url = ''/api/auth/logout'', verb = POST,
                      headers = [(''Authorization'', ''Bearer '' @ text_of (localStorage s ''authToken''))]\<rparr> of
                 Rejected e \<Rightarrow> LogoutContactError e
               | Resolved r \<Rightarrow> if ok r then LogoutServerOk else LogoutServerFailed)]
        else [])"
  by (auto simp: logout_def state_ops Let_def split: fetch_outcome.splits)

theorem logout_always_clears_witness:
  "fst (logout offline_admin
          (page legacy_document [(''authToken'', ''tok123''), (''userData'', user_json), (''theme'', ''dark'')]))
     = Returned
   \<and> localStorage (snd (logout offline_admin
          (page legacy_document [(''authToken'', ''tok123''), (''userData'', user_json), (''theme'', ''dark'')])))
        ''authToken'' = None
   \<and> localStorage (snd (logout offline_admin
          (page legacy_document [(''authToken'', ''tok123''), (''userData'', user_json), (''theme'', ''dark'')])))
        ''userData'' = None
   \<and> localStorage (snd (logout offline_admin
          (page legacy_document [(''authToken'', ''tok123''), (''userData'', user_json), (''theme'', ''dark'')])))
        ''theme'' = Some ''dark''
   \<and> location_href (snd (logout offline_admin
          (page legacy_document [(''authToken'', ''tok123''), (''userData'', user_json), (''theme'', ''dark'')])))
     = Some ''/telas2/app/login.html''
   \<and> fetch_calls (snd (logout offline_admin
          (page legacy_document [(''authToken'', ''tok123''), (''userData'', user_json), (''theme'', ''dark'')])))
     = [\<lparr>url = ''/api/auth/logout'', verb = POST, headers = [(''Authorization'', ''Bearer tok123'')]\<rparr>]
   \<and> console (snd (logout offline_admin
          (page legacy_document [(''authToken'', ''tok123''), (''userData'', user_json), (''theme'', ''dark'')])))
     = [LogoutCalled, LogoutSending, LogoutContactError (HostError ''Failed to fetch'')]"
proof -
  let ?s = "page legacy_document [(''authToken'', ''tok123''), (''userData'', user_json), (''theme'', ''dark'')]"
  have tok: "localStorage ?s ''authToken'' = Some ''tok123''" by (simp add: page_def)
  have base: "getBasePath offline_admin = ''/telas2''"
    by (simp add: getBasePath_def offline_admin_def)
  from logout_always_clears[where env=offline_admin and s="?s"] show ?thesis
    by (simp add: tok base truthy_def text_of_def) (simp add: page_def offline_admin_def)
qed

subsection \<open>Page navigator\<close>

text \<open>
  \<^verbatim>\<open>getPageUrl("dashboard")\<close> is the administrative dashboard of the base path where the
  current path contains \<^verbatim>\<open>/admin/\<close> and the application dashboard otherwise, on
  every path. A page name that is neither a key of the table nor a name that
  \<^verbatim>\<open>Object.prototype\<close> defines yields \<^verbatim>\<open>undefined\<close>; \<^verbatim>\<open>unknown-key\<close> is such a name.
\<close>

lemma getPageUrl_dashboard:
  "getPageUrl env ''dashboard'' =
     OwnValue (getBasePath env @
       (if includes_str (pathname env) ''/admin/'' then ''/admin/dashboard_admin.html''
        else ''/app/dashboard.html''))"
  by (simp add: getPageUrl_def isAdminContext_def property_get_def pageMap_def)

lemma getPageUrl_unknown:
  assumes out: "pageName \<notin> fst ` set (pageMap (getBasePath env))"
    and own: "pageName \<notin> set objectPrototype"
  shows "getPageUrl env pageName = Undefined"
proof -
  have "''dashboard'' \<in> fst ` set (pageMap (getBasePath env))"
    by (simp add: pageMap_def)
  with out have ne: "pageName \<noteq> ''dashboard''" by blast
  from out have "map_of (pageMap (getBasePath env)) pageName = None"
    by (simp add: map_of_eq_None_iff)
  with ne own show ?thesis
    by (simp add: getPageUrl_def property_get_def)
qed

lemma getPageUrl_unknown_key: "getPageUrl env ''unknown-key'' = Undefined"
  by (simp add: getPageUrl_def property_get_def pageMap_def objectPrototype_def)

text \<open>
  Claim C3 says that \<^verbatim>\<open>getPageUrl\<close> returns no URL for every page name that is not in
  the table. The code reads \<^verbatim>\<open>pageMap[key]\<close> on an object literal, so for a name that
  \<^verbatim>\<open>Object.prototype\<close> defines it returns the inherited member. On an administrative
  page, \<^verbatim>\<open>constructor\<close> is no key of the table, and what \<^verbatim>\<open>getPageUrl("constructor")\<close>
  returns is not \<^verbatim>\<open>undefined\<close> but the inherited function, a truthy value that the
  test \<^verbatim>\<open>if (!targetUrl)\<close> of \<^verbatim>\<open>navigateToPage\<close> takes for a URL. The same holds for
  each of the twelve names of \<open>objectPrototype\<close>, on every path.
\<close>

theorem getPageUrl_inherited_name:
  "''constructor'' \<notin> fst ` set (pageMap (getBasePath offline_admin))
   \<and> getPageUrl offline_admin ''constructor'' = PrototypeMember ''constructor''
   \<and> getPageUrl offline_admin ''constructor'' \<noteq> Undefined
   \<and> getPageUrl offline_admin ''unknown-key'' = Undefined"
  by (simp add: getPageUrl_def isAdminContext_def property_get_def pageMap_def objectPrototype_def
        getBasePath_def offline_admin_def)

subsection \<open>Fragment loader\<close>



text \<open>
  Claim C8: where no element of the document has the target identifier,
  \<^verbatim>\<open>loadComponent\<close> returns normally and leaves the whole state as it is: no fetch is
  issued, the document is unchanged, nothing is logged.
\<close>

theorem loadComponent_absent_target:
  assumes "getElementById targetElementId (document s) = None"
  shows "loadComponent env componentPath targetElementId s = (Returned, s)
         \<and> fetch_calls (snd (loadComponent env componentPath targetElementId s)) = fetch_calls s
         \<and> document (snd (loadComponent env componentPath targetElementId s)) = document s"
  using assms by (simp add: loadComponent_def)

theorem loadComponent_absent_target_witness:
  "getElementById ''navbar-placeholder'' (document (page legacy_document [])) = None
   \<and> loadComponent offline_admin ''/telas2/components/portal_navbar.html'' ''navbar-placeholder''
        (page legacy_document [])
       = (Returned, page legacy_document [])
   \<and> fetch_calls (snd (loadComponent offline_admin ''/telas2/components/portal_navbar.html''
        ''navbar-placeholder'' (page legacy_document []))) = []"
proof -
  have absent: "getElementById ''navbar-placeholder'' (document (page legacy_document [])) = None"
    by (simp add: getElementById_def page_def legacy_document_def section_A_def section_B_def)
  from loadComponent_absent_target[OF absent, where env=offline_admin] absent show ?thesis
    by (simp add: page_def)
qed

subsection \<open>Layout initialiser\<close>

text \<open>
  Claim C4, as stated, fails on a page that lacks the placeholders of its context: the
  fragment loader skips an absent target without a fetch. Here the path contains
  \<^verbatim>\<open>/portal/\<close>, the document has neither \<^verbatim>\<open>navbar-placeholder\<close> nor
  \<^verbatim>\<open>footer-placeholder\<close>, and \<^verbatim>\<open>initLayout\<close> issues no fetch: it loads no fragment.
\<close>

theorem initLayout_absent_placeholders_counterexample:
  "includes_str (pathname portal_home) ''/portal/''
   \<and> getElementById ''navbar-placeholder'' (document (page legacy_document [])) = None
   \<and> getElementById ''footer-placeholder'' (document (page legacy_document [])) = None
   \<and> fetch_calls (snd (initLayout portal_home None (page legacy_document []))) = []"
proof -
  let ?s = "page legacy_document []"
  have path: "includes_str (pathname portal_home) ''/portal/''"
    "\<not> includes_str (pathname portal_home) ''/admin/''"
    "\<not> includes_str (pathname portal_home) ''/app/''"
    by (simp_all add: portal_home_def online_admin_def offline_admin_def)
  have absent: "getElementById ''navbar-placeholder'' (document ?s) = None"
    "getElementById ''footer-placeholder'' (document ?s) = None"
    by (simp_all add: getElementById_def page_def legacy_document_def section_A_def section_B_def)
  have "initLayout portal_home None ?s =
      (Returned, setupEventListeners (autoFixFormSectionLayout (setupDynamicContent None ?s)))"
    using path absent by (simp add: initLayout_def Let_def and_then_def loadComponent_def)
  then have "fetch_calls (snd (initLayout portal_home None ?s)) = fetch_calls ?s"
    by (simp add: setupEventListeners_def fetch_calls_autoFix fetch_calls_setupDynamicContent)
  then have "fetch_calls (snd (initLayout portal_home None ?s)) = []"
    by (simp add: page_def)
  with path absent show ?thesis by simp
qed

text \<open>
  Claim C4, amended: on a path that contains none of \<^verbatim>\<open>/admin/\<close>, \<^verbatim>\<open>/app/\<close>,
  \<^verbatim>\<open>/portal/\<close>, \<^verbatim>\<open>initLayout\<close> loads no fragment: it issues no fetch and runs its three
  later steps on the state as it is. On a path with a marker, in a document that has
  the first placeholder of the context and, once the first load has completed, the
  second, \<^verbatim>\<open>initLayout\<close> loads exactly two fragments, one after the other: first the
  sidebar (or navbar) fragment of the context into its placeholder, then the header (or
  footer) fragment into its placeholder, each as the specification of the fragment
  loader says (\<open>fragment_loaded\<close>: the fetched text, or the error paragraph, becomes the
  content of the placeholder); the two fetches are the only ones, in this order, and
  the three later steps run on the result. The context is the first of administrative,
  application, portal whose marker the path contains. \<^verbatim>\<open>initLayout\<close> returns normally.
\<close>

theorem initLayout_fragment_loads:
  "(\<not> includes_str (pathname env) ''/admin/'' \<and> \<not> includes_str (pathname env) ''/app/''
      \<and> \<not> includes_str (pathname env) ''/portal/'' \<longrightarrow>
      initLayout env cfg s =
        (Returned, setupEventListeners (autoFixFormSectionLayout (setupDynamicContent cfg s)))
      \<and> fetch_calls (snd (initLayout env cfg s)) = fetch_calls s)
   \<and> ((includes_str (pathname env) ''/admin/''
          \<and> u1 = getBasePath env @ ''/components/admin_sidebar.html'' \<and> t1 = ''sidebar-placeholder''
          \<and> u2 = getBasePath env @ ''/components/admin_header.html'' \<and> t2 = ''header-placeholder''
        \<or> \<not> includes_str (pathname env) ''/admin/'' \<and> includes_str (pathname env) ''/app/''
          \<and> u1 = getBasePath env @ ''/components/app_sidebar.html'' \<and> t1 = ''sidebar-placeholder''
          \<and> u2 = getBasePath env @ ''/components/app_header.html'' \<and> t2 = ''header-placeholder''
        \<or> \<not> includes_str (pathname env) ''/admin/'' \<and> \<not> includes_str (pathname env) ''/app/''
          \<and> includes_str (pathname env) ''/portal/''
          \<and> u1 = getBasePath env @ ''/components/portal_navbar.html'' \<and> t1 = ''navbar-placeholder''
          \<and> u2 = getBasePath env @ ''/components/portal_footer.html'' \<and> t2 = ''footer-placeholder'')
       \<and> getElementById t1 (document s) = Some p1
       \<and> getElementById t2 (document (fragment_loaded env u1 p1 s)) = Some p2 \<longrightarrow>
      initLayout env cfg s =
        (Returned,
         setupEventListeners (autoFixFormSectionLayout (setupDynamicContent cfg
           (fragment_loaded env u2 p2 (fragment_loaded env u1 p1 s)))))
      \<and> fetch_calls (snd (initLayout env cfg s)) =
          fetch_calls s @ [\<lparr>url = u1, verb = GET, headers = []\<rparr>,
                           \<lparr>url = u2, verb = GET, headers = []\<rparr>])"
proof (intro conjI impI)
  assume none: "\<not> includes_str (pathname env) ''/admin/'' \<and> \<not> includes_str (pathname env) ''/app/''
        \<and> \<not> includes_str (pathname env) ''/portal/''"
  then show run: "initLayout env cfg s =
        (Returned, setupEventListeners (autoFixFormSectionLayout (setupDynamicContent cfg s)))"
    by (simp add: initLayout_def and_then_def Let_def)
  then show "fetch_calls (snd (initLayout env cfg s)) = fetch_calls s"
    by (simp add: setupEventListeners_def fetch_calls_autoFix fetch_calls_setupDynamicContent)
next
  assume marked: "(includes_str (pathname env) ''/admin/''
          \<and> u1 = getBasePath env @ ''/components/admin_sidebar.html'' \<and> t1 = ''sidebar-placeholder''
          \<and> u2 = getBasePath env @ ''/components/admin_header.html'' \<and> t2 = ''header-placeholder''
        \<or> \<not> includes_str (pathname env) ''/admin/'' \<and> includes_str (pathname env) ''/app/''
          \<and> u1 = getBasePath env @ ''/components/app_sidebar.html'' \<and> t1 = ''sidebar-placeholder''
          \<and> u2 = getBasePath env @ ''/components/app_header.html'' \<and> t2 = ''header-placeholder''
        \<or> \<not> includes_str (pathname env) ''/admin/'' \<and> \<not> includes_str (pathname env) ''/app/''
          \<and> includes_str (pathname env) ''/portal/''
          \<and> u1 = getBasePath env @ ''/components/portal_navbar.html'' \<and> t1 = ''navbar-placeholder''
          \<and> u2 = getBasePath env @ ''/components/portal_footer.html'' \<and> t2 = ''footer-placeholder'')
       \<and> getElementById t1 (document s) = Some p1
       \<and> getElementById t2 (document (fragment_loaded env u1 p1 s)) = Some p2"
  then have p1: "getElementById t1 (document s) = Some p1"
    and p2: "getElementById t2 (document (fragment_loaded env u1 p1 s)) = Some p2"
    by simp_all
  from marked have run: "initLayout env cfg s =
             and_then
               (and_then (loadComponent env u1 t1) (loadComponent env u2 t2))
               (\<lambda>b. (Returned, setupEventListeners (autoFixFormSectionLayout (setupDynamicContent cfg b))))
               s"
    by (auto simp: initLayout_def Let_def)
  from initLayout_two[OF run p1 p2]
  show "initLayout env cfg s =
        (Returned,
         setupEventListeners (autoFixFormSectionLayout (setupDynamicContent cfg
           (fragment_loaded env u2 p2 (fragment_loaded env u1 p1 s)))))"
    by (rule conjunct1)
  from initLayout_two[OF run p1 p2]
  show "fetch_calls (snd (initLayout env cfg s)) =
          fetch_calls s @ [\<lparr>url = u1, verb = GET, headers = []\<rparr>,
                           \<lparr>url = u2, verb = GET, headers = []\<rparr>]"
    by (rule conjunct2)
qed

theorem initLayout_fragment_loads_witness:
  "includes_str (pathname online_admin) ''/admin/''
   \<and> getElementById ''sidebar-placeholder'' (document (page legacy_document [])) = Some [0]
   \<and> getElementById ''header-placeholder''
        (document (fragment_loaded online_admin ''/telas2/components/admin_sidebar.html'' [0]
           (page legacy_document []))) = Some [1]
   \<and> initLayout online_admin (Some partidos_config) (page legacy_document []) =
       (Returned,
        (page legacy_document [])
          \<lparr>document :=
             Element (HTML, ''body'') []
               [Element (HTML, ''div'') [(''id'', ''sidebar-placeholder'')]
                  [Element (HTML, ''a'') [(''id'', ''nav-partidos''), (''class'', ''active'')]
                     [Text ''Partidos'']],
                Element (HTML, ''div'') [(''id'', ''header-placeholder'')]
                  [Element (HTML, ''i'') [(''id'', ''header-icon''), (''class'', ''fa-solid fa-flag'')] [],
                   Element (HTML, ''h1'') [(''id'', ''header-title'')] [Text ''Partidos'']],
                Element (HTML, ''main'') [(''class'', ''main-content'')]
                  [Element (HTML, ''div'') [(''class'', ''page-content-wrapper'')]
                     [Element (HTML, ''div'') [(''class'', ''content-area'')] [section_B, section_A]]]],
           console := [AutoFixWrapping [ClassString ''form-section'', ClassString ''content-section'']],
           fetch_calls :=
             [\<lparr>url = ''/telas2/components/admin_sidebar.html'', verb = GET, headers = []\<rparr>,
              \<lparr>url = ''/telas2/components/admin_header.html'', verb = GET, headers = []\<rparr>]\<rparr>)
   \<and> \<not> includes_str (pathname standalone) ''/admin/''
   \<and> \<not> includes_str (pathname standalone) ''/app/''
   \<and> \<not> includes_str (pathname standalone) ''/portal/''
   \<and> fetch_calls (snd (initLayout standalone None (page legacy_document []))) = []"
proof -
  let ?s = "page legacy_document []"
  let ?u1 = "''/telas2/components/admin_sidebar.html''"
  let ?u2 = "''/telas2/components/admin_header.html''"
  let ?d1 = "Element (HTML, ''body'') []
               [Element (HTML, ''div'') [(''id'', ''sidebar-placeholder'')]
                  [Element (HTML, ''a'') [(''id'', ''nav-partidos'')] [Text ''Partidos'']],
                Element (HTML, ''div'') [(''id'', ''header-placeholder'')] [],
                Element (HTML, ''main'') [(''class'', ''main-content'')] [section_A, section_B]]"
  let ?d2 = "Element (HTML, ''body'') []
               [Element (HTML, ''div'') [(''id'', ''sidebar-placeholder'')]
                  [Element (HTML, ''a'') [(''id'', ''nav-partidos'')] [Text ''Partidos'']],
                Element (HTML, ''div'') [(''id'', ''header-placeholder'')]
                  [Element (HTML, ''i'') [(''id'', ''header-icon'')] [],
                   Element (HTML, ''h1'') [(''id'', ''header-title'')] []],
                Element (HTML, ''main'') [(''class'', ''main-content'')] [section_A, section_B]]"
  let ?d3 = "Element (HTML, ''body'') []
               [Element (HTML, ''div'') [(''id'', ''sidebar-placeholder'')]
                  [Element (HTML, ''a'') [(''id'', ''nav-partidos''), (''class'', ''active'')]
                     [Text ''Partidos'']],
                Element (HTML, ''div'') [(''id'', ''header-placeholder'')]
                  [Element (HTML, ''i'') [(''id'', ''header-icon''), (''class'', ''fa-solid fa-flag'')] [],
                   Element (HTML, ''h1'') [(''id'', ''header-title'')] [Text ''Partidos'']],
                Element (HTML, ''main'') [(''class'', ''main-content'')] [section_A, section_B]]"
  let ?calls = "[\<lparr>url = ?u1, verb = GET, headers = []\<rparr>, \<lparr>url = ?u2, verb = GET, headers = []\<rparr>]"
  have admin: "includes_str (pathname online_admin) ''/admin/''"
    by (simp add: online_admin_def offline_admin_def)
  have none: "\<not> includes_str (pathname standalone) ''/admin/'' \<and> \<not> includes_str (pathname standalone) ''/app/''
        \<and> \<not> includes_str (pathname standalone) ''/portal/''"
    by (simp add: standalone_def offline_admin_def)
  have base: "getBasePath online_admin = ''/telas2''"
    by (simp add: getBasePath_def online_admin_def offline_admin_def)
  have p1: "getElementById ''sidebar-placeholder'' (document ?s) = Some [0]"
    by (simp add: getElementById_def page_def legacy_document_def)
  have s1: "fragment_loaded online_admin ?u1 [0] ?s =
      ?s\<lparr>document := ?d1, fetch_calls := [\<lparr>url = ?u1, verb = GET, headers = []\<rparr>]\<rparr>"
    by (simp add: fragment_loaded_def online_admin_def offline_admin_def html_table_def
          sidebar_html_def header_html_def page_def legacy_document_def)
  have p2: "getElementById ''header-placeholder'' (document (fragment_loaded online_admin ?u1 [0] ?s)) = Some [1]"
    unfolding s1 by (simp add: getElementById_def)
  have s2: "fragment_loaded online_admin ?u2 [1] (fragment_loaded online_admin ?u1 [0] ?s) =
      ?s\<lparr>document := ?d2, fetch_calls := ?calls\<rparr>"
    unfolding s1
    by (simp add: fragment_loaded_def online_admin_def offline_admin_def html_table_def
          sidebar_html_def header_html_def page_def)
  have s3: "setupDynamicContent (Some partidos_config) (?s\<lparr>document := ?d2, fetch_calls := ?calls\<rparr>) =
      ?s\<lparr>document := ?d3, fetch_calls := ?calls\<rparr>"
    by (simp add: setupDynamicContent_def partidos_config_def getElementById_def truthy_def text_of_def
          set_className_def classList_add_def class_attr_def tokens_def Let_def page_def
          section_A_def section_B_def)
  have s4: "autoFixFormSectionLayout (?s\<lparr>document := ?d3, fetch_calls := ?calls\<rparr>) =
      ?s\<lparr>document :=
             Element (HTML, ''body'') []
               [Element (HTML, ''div'') [(''id'', ''sidebar-placeholder'')]
                  [Element (HTML, ''a'') [(''id'', ''nav-partidos''), (''class'', ''active'')]
                     [Text ''Partidos'']],
                Element (HTML, ''div'') [(''id'', ''header-placeholder'')]
                  [Element (HTML, ''i'') [(''id'', ''header-icon''), (''class'', ''fa-solid fa-flag'')] [],
                   Element (HTML, ''h1'') [(''id'', ''header-title'')] [Text ''Partidos'']],
                Element (HTML, ''main'') [(''class'', ''main-content'')]
                  [Element (HTML, ''div'') [(''class'', ''page-content-wrapper'')]
                     [Element (HTML, ''div'') [(''class'', ''content-area'')] [section_B, section_A]]]],
           console := [AutoFixWrapping [ClassString ''form-section'', ClassString ''content-section'']],
           fetch_calls := ?calls\<rparr>"
    by (simp add: autoFixFormSectionLayout_def containersToWrap_def containerSelectors_def
        appendChild_pos_def console_put_def dom_defs className_def set_className_def page_def
        section_A_def section_B_def Let_def)
  have marked: "(includes_str (pathname online_admin) ''/admin/''
          \<and> ?u1 = getBasePath online_admin @ ''/components/admin_sidebar.html''
          \<and> ''sidebar-placeholder'' = ''sidebar-placeholder''
          \<and> ?u2 = getBasePath online_admin @ ''/components/admin_header.html''
          \<and> ''header-placeholder'' = ''header-placeholder'')"
    using admin base by simp
  from initLayout_fragment_loads[where env=online_admin and cfg="Some partidos_config" and s="?s"
         and ?u1.0="?u1" and ?t1.0="''sidebar-placeholder''" and ?u2.0="?u2"
         and ?t2.0="''header-placeholder''" and ?p1.0="[0]" and ?p2.0="[1]"]
       marked p1 p2
  have "initLayout online_admin (Some partidos_config) ?s =
        (Returned,
         setupEventListeners (autoFixFormSectionLayout (setupDynamicContent (Some partidos_config)
           (fragment_loaded online_admin ?u2 [1] (fragment_loaded online_admin ?u1 [0] ?s)))))"
    by blast
  then have result: "initLayout online_admin (Some partidos_config) ?s =
        (Returned, autoFixFormSectionLayout (?s\<lparr>document := ?d3, fetch_calls := ?calls\<rparr>))"
    by (simp only: s2 s3 setupEventListeners_def)
  from initLayout_fragment_loads[where env=standalone and cfg=None and s="?s"] none
  have "fetch_calls (snd (initLayout standalone None ?s)) = fetch_calls ?s"
    by blast
  then have unfetched: "fetch_calls (snd (initLayout standalone None ?s)) = []"
    by (simp add: page_def)
  show ?thesis
    using admin p1 p2 none unfetched by (simp add: result s4)
qed

subsection \<open>Layout auto-repair\<close>

text \<open>
  Claim C5 says that the repair moves the matching direct children into the new
  wrappers in their relative document order. The code collects them selector by
  selector and appends them as collected. Here the main content area has the children
  A (a \<^verbatim>\<open>content-section\<close>) and B (a \<^verbatim>\<open>form-section\<close>) in this order, and no wrapper;
  after the repair the inner wrapper holds B before A.
\<close>

theorem autoFix_reorders_sections:
  "find_first (has_class ''main-content'') (document (page legacy_document [])) = Some [2]
   \<and> get_at [2] (document (page legacy_document []))
       = Some (Element (HTML, ''main'') [(''class'', ''main-content'')] [section_A, section_B])
   \<and> find_descendant (has_class ''page-content-wrapper'')
        (Element (HTML, ''main'') [(''class'', ''main-content'')] [section_A, section_B]) = None
   \<and> has_class ''content-section'' section_A
   \<and> has_class ''form-section'' section_B
   \<and> get_at [2] (document (autoFixFormSectionLayout (page legacy_document [])))
       = Some (Element (HTML, ''main'') [(''class'', ''main-content'')]
                [Element (HTML, ''div'') [(''class'', ''page-content-wrapper'')]
                   [Element (HTML, ''div'') [(''class'', ''content-area'')] [section_B, section_A]]])
   \<and> [section_B, section_A] \<noteq> [section_A, section_B]"
  by (simp add: autoFixFormSectionLayout_def containersToWrap_def containerSelectors_def
        appendChild_pos_def console_put_def dom_defs className_def set_className_def page_def
        legacy_document_def section_A_def section_B_def Let_def)

text \<open>
  Claim C6: on every state, running the repair a second time changes nothing: after a
  run that wrapped, the main content area is still the first element of its class and
  now has the wrapper below it, so the second run stops at the presence check; a run
  that did not wrap left the state as it was.
\<close>

theorem autoFix_idempotent:
  "autoFixFormSectionLayout (autoFixFormSectionLayout s) = autoFixFormSectionLayout s"
proof (cases "find_first (has_class ''main-content'') (document s)")
  case None
  then show ?thesis by (simp add: autoFixFormSectionLayout_def)
next
  case (Some mainContent)
  from find_first_get_at[OF Some] obtain t a kids where
    at: "get_at mainContent (document s) = Some (Element t a kids)" by blast
  show ?thesis
  proof (cases "find_descendant (has_class ''page-content-wrapper'') (Element t a kids) = None
                \<and> (\<exists>k \<in> set kids. section_class k \<noteq> None)")
    case True
    let ?W = "Element (HTML, ''div'') [(''class'', ''page-content-wrapper'')]
                       [Element (HTML, ''div'') [(''class'', ''content-area'')]
                          (concat (map (\<lambda>c. filter (\<lambda>k. section_class k = Some c) kids)
                             containerSelectors))]"
    let ?K = "filter (\<lambda>k. section_class k = None) kids @ [?W]"
    let ?d = "update_at mainContent (set_children ?K) (document s)"
    from True autoFix_repair[OF Some at] have doc: "document (autoFixFormSectionLayout s) = ?d"
      by simp
    have main': "find_first (has_class ''main-content'') ?d = Some mainContent"
      by (rule find_first_update_at[OF has_class_attr_only set_children_keeps Some])
    have at': "get_at mainContent ?d = Some (Element t a ?K)"
      using get_at_update_at[OF at, of "set_children ?K"] by simp
    have "has_class ''page-content-wrapper'' ?W"
      by (simp add: has_class_def class_attr_def tokens_def is_space_def)
    then have "find_first (has_class ''page-content-wrapper'') ?W = Some []" by simp
    then have wrapped: "find_descendant (has_class ''page-content-wrapper'') (Element t a ?K) \<noteq> None"
      by (simp add: find_descendant_def first_some_append_Some)
    show ?thesis
      using doc main' at' wrapped
      by (simp add: autoFixFormSectionLayout_def[of "autoFixFormSectionLayout s"])
  next
    case False
    have "autoFixFormSectionLayout s = s"
    proof (cases "find_descendant (has_class ''page-content-wrapper'') (Element t a kids) = None")
      case wrapped: False
      with Some at show ?thesis by (simp add: autoFixFormSectionLayout_def)
    next
      case True
      with False have none: "\<forall>k \<in> set kids. section_class k = None" by blast
      have "containersToWrap kids = []"
        using none by (simp add: containersToWrap_Nil)
      with Some at True show ?thesis by (simp add: autoFixFormSectionLayout_def Let_def del: upt.simps)
    qed
    then show ?thesis by simp
  qed
qed

theorem autoFix_idempotent_witness:
  "autoFixFormSectionLayout (autoFixFormSectionLayout (page legacy_document []))
     = autoFixFormSectionLayout (page legacy_document [])
   \<and> console (autoFixFormSectionLayout (autoFixFormSectionLayout (page legacy_document [])))
     = [AutoFixWrapping [ClassString ''form-section'', ClassString ''content-section'']]
   \<and> autoFixFormSectionLayout (page legacy_document []) \<noteq> page legacy_document []"
proof -
  have "console (autoFixFormSectionLayout (page legacy_document []))
     = [AutoFixWrapping [ClassString ''form-section'', ClassString ''content-section'']]"
    by (simp add: autoFixFormSectionLayout_def containersToWrap_def containerSelectors_def
        appendChild_pos_def console_put_def dom_defs className_def set_className_def page_def
        legacy_document_def section_A_def section_B_def Let_def)
  moreover from this have "autoFixFormSectionLayout (page legacy_document []) \<noteq> page legacy_document []"
    by (auto simp: page_def)
  ultimately show ?thesis
    using autoFix_idempotent[of "page legacy_document []"] by simp
qed

end
